theory Spec2Isabelle
  imports Main "HOL-Library.Sublist"
begin

section \<open>Strings and the host runtime\<close>

text \<open>
  A JavaScript string is modelled as a \<open>string\<close>: one \<open>char\<close> for each unit that
  \<^verbatim>\<open>.length\<close> counts and \<^verbatim>\<open>.substring\<close> cuts. The formatters never look inside
  a field, so nothing below depends on which characters a field holds.
\<close>

definition newline :: string where
  "newline = [CHR 0x0A]"

text \<open>\<^verbatim>\<open>Array.prototype.join\<close> on an array of strings.\<close>

fun join :: "string \<Rightarrow> string list \<Rightarrow> string" where
  "join sep [] = []"
| "join sep [x] = x"
| "join sep (x # y # ys) = x @ sep @ join sep (y # ys)"

text \<open>
  A template literal renders an array index or an array length (a non-negative integer)
  in decimal.
\<close>

definition digit :: "nat \<Rightarrow> char" where
  "digit d = ''0123456789'' ! d"

fun toString_nat :: "nat \<Rightarrow> string" where
  "toString_nat n =
     (if n < 10 then [digit n] else toString_nat (n div 10) @ [digit (n mod 10)])"

declare toString_nat.simps [simp del]

text \<open>
  What the source takes from the JavaScript runtime and does not define itself:
  \<^item> \<open>localeCount s\<close> is \<^verbatim>\<open>parseInt(s).toLocaleString()\<close>, the count \<open>s\<close> rendered with
    the separators of the host's locale;
  \<^item> \<open>destructureError\<close> is the message of the \<^verbatim>\<open>TypeError\<close> the engine raises when
    \<^verbatim>\<open>const { name, arguments: args } = params\<close> meets a \<open>params\<close> that is
    \<^verbatim>\<open>undefined\<close> or \<^verbatim>\<open>null\<close>.
\<close>

record Runtime =
  localeCount :: "string \<Rightarrow> string"
  destructureError :: string

section \<open>Data model (the interfaces of \<^verbatim>\<open>src/index.ts\<close>)\<close>

record RadioStation =
  st_id :: string
  st_name :: string
  st_logo :: string
  st_weburl :: string
  st_shorturl :: string
  st_genre :: string
  st_lang :: string
  language :: string
  st_bc_freq :: string
  st_city :: string
  st_state :: string
  country_name_rs :: string
  st_country :: string
  st_play_cnt :: string
  st_fav_cnt :: string
  stream_link :: string
  stream_type :: string
  stream_bitrate :: string
  st_deeplink :: string

text \<open>
  \<open>st_deeplink\<close> is the field \<^verbatim>\<open>deeplink\<close> of \<^verbatim>\<open>RadioStation\<close>, \<open>p_deeplink\<close> the
  field \<^verbatim>\<open>deeplink\<close> of \<^verbatim>\<open>Podcast\<close>. The interface declares \<^verbatim>\<open>p_desc: string\<close>, and
  \<^verbatim>\<open>formatPodcast\<close> tests the field for truthiness before it reads it: \<open>None\<close> is the
  field absent (\<^verbatim>\<open>undefined\<close> or \<^verbatim>\<open>null\<close>).
\<close>

record Podcast =
  p_id :: string
  p_name :: string
  p_desc :: "string option"
  p_lang :: string
  p_image :: string
  p_email :: string
  cat_name :: string
  total_stream :: string
  p_deeplink :: string
  cc_code :: string

section \<open>The formatters\<close>

text \<open>
  \<^verbatim>\<open>formatRadioStation\<close>: the array \<^verbatim>\<open>lines\<close> as it stands at the \<^verbatim>\<open>return\<close>, and
  the returned \<^verbatim>\<open>lines.join('\n')\<close>. \<open>index\<close> is the position in the array plus one.
\<close>

definition formatRadioStation_lines :: "Runtime \<Rightarrow> RadioStation \<Rightarrow> nat \<Rightarrow> string list" where
  "formatRadioStation_lines rt station index =
     (let lines =
            [toString_nat index @ ''. '' @ st_name station,
             ''Location: '' @ st_city station @ '', '' @ st_state station @ '', ''
               @ country_name_rs station,
             ''Language: '' @ language station,
             ''Genre: '' @ st_genre station];
          lines =
            (if st_bc_freq station \<noteq> ''~''
             then lines @ [''Frequency: '' @ st_bc_freq station]
             else lines)
      in lines @
           [''Stream: '' @ stream_type station @ '' '' @ stream_bitrate station @ ''kbps'',
            ''Plays: '' @ localeCount rt (st_play_cnt station),
            ''Listen:'https://appradiofm.com/radioplay/' '' @ st_shorturl station])"

definition formatRadioStation :: "Runtime \<Rightarrow> RadioStation \<Rightarrow> nat \<Rightarrow> string" where
  "formatRadioStation rt station index =
     join newline (formatRadioStation_lines rt station index)"

text \<open>\<^verbatim>\<open>formatPodcast\<close>, in the same two steps.\<close>

definition formatPodcast_lines :: "Runtime \<Rightarrow> Podcast \<Rightarrow> nat \<Rightarrow> string list" where
  "formatPodcast_lines rt podcast index =
     (let lines =
            [toString_nat index @ ''. '' @ p_name podcast,
             ''Category: '' @ cat_name podcast,
             ''Language: '' @ p_lang podcast];
          lines =
            (case p_desc podcast of
               None \<Rightarrow> lines
             | Some desc \<Rightarrow>
                 if desc = [] then lines
                 else
                   (let shortDesc =
                          (if length desc > 100 then take 100 desc @ ''...'' else desc)
                    in lines @ [''Description: '' @ shortDesc]))
      in lines @
           [''Streams: '' @ localeCount rt (total_stream podcast),
            ''Listen: '' @ p_deeplink podcast])"

definition formatPodcast :: "Runtime \<Rightarrow> Podcast \<Rightarrow> nat \<Rightarrow> string" where
  "formatPodcast rt podcast index =
     join newline (formatPodcast_lines rt podcast index)"

section \<open>The upstream response\<close>

text \<open>
  \<^verbatim>\<open>data: RadioStation[] | Podcast[]\<close> is a union of two array types, and the tag
  \<^verbatim>\<open>type\<close> of a group is any string.
\<close>

datatype GroupData = Stations "RadioStation list" | Podcasts "Podcast list"

record ResultGroup =
  type :: string
  data :: GroupData

record ApiData =
  ErrorCode :: int
  ErrorMessage :: string
  Data :: "ResultGroup list option"

record ApiResponse =
  http_response_code :: int
  http_response_message :: string
  data :: ApiData

text \<open>\<^verbatim>\<open>radioData.data.length\<close>.\<close>

fun data_length :: "GroupData \<Rightarrow> nat" where
  "data_length (Stations stations) = length stations"
| "data_length (Podcasts podcasts) = length podcasts"

text \<open>
  \<^verbatim>\<open>radioData.data as RadioStation[]\<close> is a cast, erased at run time. When the group
  tagged \<open>radio\<close> carries podcasts, \<^verbatim>\<open>formatRadioStation\<close> reads station fields of a
  podcast object: each is \<^verbatim>\<open>undefined\<close>, which a template literal renders as
  \<open>undefined\<close>, which differs from \<open>~\<close>, and which \<^verbatim>\<open>parseInt\<close> converts to the
  string \<open>undefined\<close> before it parses. So the podcast is, for the formatter, the station
  whose fields all hold that string; \<^verbatim>\<open>deeplink\<close> is a field of both interfaces.
\<close>

definition podcast_as_station :: "Podcast \<Rightarrow> RadioStation" where
  "podcast_as_station podcast =
     \<lparr>st_id = ''undefined'', st_name = ''undefined'', st_logo = ''undefined'',
      st_weburl = ''undefined'', st_shorturl = ''undefined'', st_genre = ''undefined'',
      st_lang = ''undefined'', language = ''undefined'', st_bc_freq = ''undefined'',
      st_city = ''undefined'', st_state = ''undefined'', country_name_rs = ''undefined'',
      st_country = ''undefined'', st_play_cnt = ''undefined'', st_fav_cnt = ''undefined'',
      stream_link = ''undefined'', stream_type = ''undefined'',
      stream_bitrate = ''undefined'', st_deeplink = p_deeplink podcast\<rparr>"

fun as_RadioStations :: "GroupData \<Rightarrow> RadioStation list" where
  "as_RadioStations (Stations stations) = stations"
| "as_RadioStations (Podcasts podcasts) = map podcast_as_station podcasts"

text \<open>
  The outcome of \<^verbatim>\<open>await axios.get(url, { params: { srch: query }, timeout: 15000 })\<close>
  for a query: \<open>Inl m\<close> when the promise rejects (timeout, network error, a status other
  than 2xx) with an error whose message is \<open>m\<close>, \<open>Inr r\<close> when it resolves with the body
  \<open>r\<close> in \<^verbatim>\<open>response.data\<close>.
\<close>

type_synonym Upstream = "string \<Rightarrow> string + ApiResponse"

text \<open>
  The handler's one effect outside its response is the outbound GET. The list \<open>sent\<close> is
  the log of the \<^verbatim>\<open>srch\<close> parameters of the GETs issued so far.
\<close>

definition axios_get ::
    "Upstream \<Rightarrow> string \<Rightarrow> string list \<Rightarrow> (string + ApiResponse) \<times> string list" where
  "axios_get upstream srch sent = (upstream srch, sent @ [srch])"

section \<open>The request and the response\<close>

text \<open>
  The object handed to \<^verbatim>\<open>res.json\<close> is a JavaScript value; so is the \<^verbatim>\<open>id\<close> of the
  request, which the handler copies and never inspects.
\<close>

datatype jsval =
    Undefined
  | Null
  | Bool bool
  | Num int
  | Str string
  | Arr "jsval list"
  | Obj "(string \<times> jsval) list"

text \<open>
  The envelope \<^verbatim>\<open>req.body\<close> with the fields the handler destructures, at the types the
  source compares them with or casts them to (\<^verbatim>\<open>args?.query as string\<close>). \<open>None\<close> is
  a field that is absent; for \<open>params\<close> and \<open>arguments\<close> it is also \<^verbatim>\<open>null\<close>.
  \<open>rpc_method\<close> is the field \<^verbatim>\<open>method\<close> and \<open>id_value\<close> the field \<^verbatim>\<open>id\<close>; the
  local \<^verbatim>\<open>query\<close> of the handler is \<open>q\<close> below.
\<close>

record Arguments =
  query :: "string option"

record Params =
  name :: "string option"
  arguments :: "Arguments option"

record Request =
  rpc_method :: "string option"
  params :: "Params option"
  id_value :: jsval

text \<open>A template literal renders an absent string field as \<open>undefined\<close>.\<close>

fun template :: "string option \<Rightarrow> string" where
  "template None = ''undefined''"
| "template (Some s) = s"

text \<open>The three shapes the handler passes to \<^verbatim>\<open>res.json\<close>.\<close>

definition result_envelope :: "jsval \<Rightarrow> jsval \<Rightarrow> jsval" where
  "result_envelope id' result =
     Obj [(''jsonrpc'', Str ''2.0''), (''id'', id'), (''result'', result)]"

definition error_envelope :: "jsval \<Rightarrow> int \<Rightarrow> string \<Rightarrow> jsval" where
  "error_envelope id' code message =
     Obj [(''jsonrpc'', Str ''2.0''),
          (''id'', id'),
          (''error'', Obj [(''code'', Num code), (''message'', Str message)])]"

definition text_content :: "string \<Rightarrow> jsval" where
  "text_content text =
     Obj [(''content'', Arr [Obj [(''type'', Str ''text''), (''text'', Str text)]])]"

definition initialize_result :: jsval where
  "initialize_result =
     Obj [(''protocolVersion'', Str ''2024-11-05''),
          (''capabilities'', Obj [(''tools'', Obj [])]),
          (''serverInfo'',
             Obj [(''name'', Str ''radiofm-mcp-server''), (''version'', Str ''1.0.0'')])]"

definition tools_list_result :: jsval where
  \<open>tools_list_result =
     Obj [(''tools'',
       Arr [Obj [(''name'', Str ''search_radio_stations''),
                 (''description'',
                    Str (''Search for radio stations and podcasts worldwide by name, ''
                         @ ''location, language, or genre'')),
                 (''inputSchema'',
                    Obj [(''type'', Str ''object''),
                         (''properties'',
                            Obj [(''query'',
                              Obj [(''type'', Str ''string''),
                                   (''description'',
                                      Str ''Search query (e.g., "BBC", "India", "Hindi", "Jazz")'')])]),
                         (''required'', Arr [Str ''query''])])]])]\<close>

section \<open>The search texts\<close>

text \<open>
  The first character of the message is U+1F50D, given here by its UTF-8 bytes.
\<close>

definition magnifier :: string where
  "magnifier = [CHR 0xF0, CHR 0x9F, CHR 0x94, CHR 0x8D]"

definition no_results_text :: "string \<Rightarrow> string" where
  \<open>no_results_text q =
     magnifier @ '' No results found for "'' @ q @ ''"'' @ newline @ newline
     @ ''Try searching with:'' @ newline
     @ ''- Station name (e.g., "BBC", "NPR")'' @ newline
     @ ''- Country (e.g., "UK", "USA", "India")'' @ newline
     @ ''- Language (e.g., "English", "Spanish")'' @ newline
     @ ''- Genre (e.g., "Jazz", "News", "Rock")''\<close>

text \<open>
  The array \<^verbatim>\<open>sections\<close> of \<^verbatim>\<open>src/index.ts\<close> as it stands at the join. The block
  that would add the podcasts is commented out in the source, so nothing is pushed
  between the stations and the closing line.
\<close>

definition sections :: "Runtime \<Rightarrow> string \<Rightarrow> ResultGroup list \<Rightarrow> string list" where
  \<open>sections rt q results =
     (let sections = [''Search Results for "'' @ q @ ''"''];
          radioData = find (\<lambda>r. type r = ''radio'') results;
          sections =
            (case radioData of
               None \<Rightarrow> sections
             | Some radioData \<Rightarrow>
                 if data_length (ResultGroup.data radioData) > 0 then
                   (let stations = as_RadioStations (ResultGroup.data radioData)
                    in sections @
                         [newline @ ''RADIO STATIONS ('' @ toString_nat (length stations) @ '')'']
                         @ map (\<lambda>(index, station). formatRadioStation rt station (index + 1))
                             (enumerate 0 stations))
                 else sections)
      in sections @ [newline @ ''Tap on any "Listen" link to play on radiofm.co''])\<close>

section \<open>The handler of \<^verbatim>\<open>POST /mcp\<close>\<close>

text \<open>
  The body of the \<^verbatim>\<open>try\<close> block. \<open>Inl m\<close> is an exception with message \<open>m\<close> leaving
  the block, \<open>Inr v\<close> the value passed to \<^verbatim>\<open>res.json\<close> by a \<^verbatim>\<open>return\<close>. The second
  component is the log of outbound GETs.
\<close>

definition mcp_try ::
    "Runtime \<Rightarrow> Upstream \<Rightarrow> Request \<Rightarrow> string list \<Rightarrow> (string + jsval) \<times> string list" where
  "mcp_try rt upstream req sent =
     (if rpc_method req = Some ''initialize'' then
        (Inr (result_envelope (id_value req) initialize_result), sent)
      else if rpc_method req = Some ''tools/list'' then
        (Inr (result_envelope (id_value req) tools_list_result), sent)
      else if rpc_method req = Some ''tools/call'' then
        (case params req of
           None \<Rightarrow> (Inl (destructureError rt), sent)
         | Some p \<Rightarrow>
             if name p = Some ''search_radio_stations'' then
               (case (case arguments p of None \<Rightarrow> None | Some args \<Rightarrow> query args) of
                  None \<Rightarrow> (Inl ''Search query is required'', sent)
                | Some q \<Rightarrow>
                    if q = [] then (Inl ''Search query is required'', sent)
                    else
                      (case axios_get upstream q sent of
                         (Inl m, sent') \<Rightarrow> (Inl m, sent')
                       | (Inr apiData, sent') \<Rightarrow>
                           if ErrorCode (ApiResponse.data apiData) \<noteq> 0 then
                             (Inl (ErrorMessage (ApiResponse.data apiData)), sent')
                           else
                             (case Data (ApiResponse.data apiData) of
                                None \<Rightarrow>
                                  (Inr (result_envelope (id_value req)
                                          (text_content (no_results_text q))), sent')
                              | Some results \<Rightarrow>
                                  if length results = 0 then
                                    (Inr (result_envelope (id_value req)
                                            (text_content (no_results_text q))), sent')
                                  else
                                    (Inr (result_envelope (id_value req)
                                            (text_content
                                               (join newline (sections rt q results)))),
                                     sent'))))
             else (Inl (''Unknown tool: '' @ template (name p)), sent))
      else (Inl (''Unknown method: '' @ template (rpc_method req)), sent))"

text \<open>
  The \<^verbatim>\<open>catch\<close> block: \<^verbatim>\<open>error.message || 'Internal server error'\<close> replaces an empty
  message, and \<^verbatim>\<open>req.body.id\<close> is the \<^verbatim>\<open>id\<close> of the envelope.
\<close>

definition mcp_catch :: "Request \<Rightarrow> string \<Rightarrow> jsval" where
  "mcp_catch req message =
     error_envelope (id_value req) (- 32000)
       (if message = [] then ''Internal server error'' else message)"

definition mcp_post ::
    "Runtime \<Rightarrow> Upstream \<Rightarrow> Request \<Rightarrow> string list \<Rightarrow> jsval \<times> string list" where
  "mcp_post rt upstream req sent =
     (case mcp_try rt upstream req sent of
        (Inl message, sent') \<Rightarrow> (mcp_catch req message, sent')
      | (Inr response, sent') \<Rightarrow> (response, sent'))"

section \<open>The build \<^verbatim>\<open>src/unnamed/part_000\<close>\<close>

text \<open>
  The compiled handler kept beside the source differs from \<^verbatim>\<open>src/index.ts\<close> in two
  places of the search branch: the last line of a station is \<^verbatim>\<open>Listen:${station.deeplink}\<close>,
  and the podcast block is present. Its \<^verbatim>\<open>formatPodcast\<close> is that of \<^verbatim>\<open>src/index.ts\<close>.
\<close>

definition part000_formatRadioStation_lines ::
    "Runtime \<Rightarrow> RadioStation \<Rightarrow> nat \<Rightarrow> string list" where
  "part000_formatRadioStation_lines rt station index =
     (let lines =
            [toString_nat index @ ''. '' @ st_name station,
             ''Location: '' @ st_city station @ '', '' @ st_state station @ '', ''
               @ country_name_rs station,
             ''Language: '' @ language station,
             ''Genre: '' @ st_genre station];
          lines =
            (if st_bc_freq station \<noteq> ''~''
             then lines @ [''Frequency: '' @ st_bc_freq station]
             else lines)
      in lines @
           [''Stream: '' @ stream_type station @ '' '' @ stream_bitrate station @ ''kbps'',
            ''Plays: '' @ localeCount rt (st_play_cnt station),
            ''Listen:'' @ st_deeplink station])"

definition part000_formatRadioStation :: "Runtime \<Rightarrow> RadioStation \<Rightarrow> nat \<Rightarrow> string" where
  "part000_formatRadioStation rt station index =
     join newline (part000_formatRadioStation_lines rt station index)"

text \<open>
  A station read as a podcast, when the group tagged \<open>podcast\<close> carries stations: the
  fields of \<^verbatim>\<open>Podcast\<close> are \<^verbatim>\<open>undefined\<close> on it, \<^verbatim>\<open>deeplink\<close> apart.
\<close>

definition station_as_podcast :: "RadioStation \<Rightarrow> Podcast" where
  "station_as_podcast station =
     \<lparr>p_id = ''undefined'', p_name = ''undefined'', p_desc = None, p_lang = ''undefined'',
      p_image = ''undefined'', p_email = ''undefined'', cat_name = ''undefined'',
      total_stream = ''undefined'', p_deeplink = st_deeplink station,
      cc_code = ''undefined''\<rparr>"

fun as_Podcasts :: "GroupData \<Rightarrow> Podcast list" where
  "as_Podcasts (Podcasts podcasts) = podcasts"
| "as_Podcasts (Stations stations) = map station_as_podcast stations"

definition part000_sections :: "Runtime \<Rightarrow> string \<Rightarrow> ResultGroup list \<Rightarrow> string list" where
  \<open>part000_sections rt q results =
     (let sections = [''Search Results for "'' @ q @ ''"''];
          radioData = find (\<lambda>r. type r = ''radio'') results;
          sections =
            (case radioData of
               None \<Rightarrow> sections
             | Some radioData \<Rightarrow>
                 if data_length (ResultGroup.data radioData) > 0 then
                   (let stations = as_RadioStations (ResultGroup.data radioData)
                    in sections @
                         [newline @ ''RADIO STATIONS ('' @ toString_nat (length stations) @ '')'']
                         @ map (\<lambda>(index, station).
                                  part000_formatRadioStation rt station (index + 1))
                             (enumerate 0 stations))
                 else sections);
          podcastData = find (\<lambda>r. type r = ''podcast'') results;
          sections =
            (case podcastData of
               None \<Rightarrow> sections
             | Some podcastData \<Rightarrow>
                 if data_length (ResultGroup.data podcastData) > 0 then
                   (let podcasts = as_Podcasts (ResultGroup.data podcastData)
                    in sections @
                         [newline @ ''PODCASTS ('' @ toString_nat (length podcasts) @ '')'']
                         @ map (\<lambda>(index, podcast). formatPodcast rt podcast (index + 1))
                             (enumerate 0 podcasts))
                 else sections)
      in sections @ [newline @ ''Tap on any "Listen" link to play on radiofm.co''])\<close>

section \<open>The older formatter of \<^verbatim>\<open>src/unnamed/part_001\<close>\<close>

text \<open>
  The variant that answers \<^verbatim>\<open>list_tools\<close> and \<^verbatim>\<open>call_tool\<close> builds each entry by
  appending to one string, opens every line with a pictograph (given here by its UTF-8
  bytes), and cuts the description at 150.
\<close>

definition studio_microphone :: string where
  "studio_microphone = [CHR 0xF0, CHR 0x9F, CHR 0x8E, CHR 0x99, CHR 0xEF, CHR 0xB8, CHR 0x8F]"

definition file_folder :: string where
  "file_folder = [CHR 0xF0, CHR 0x9F, CHR 0x93, CHR 0x82]"

definition globe :: string where
  "globe = [CHR 0xF0, CHR 0x9F, CHR 0x8C, CHR 0x90]"

definition memo :: string where
  "memo = [CHR 0xF0, CHR 0x9F, CHR 0x93, CHR 0x9D]"

definition headphone :: string where
  "headphone = [CHR 0xF0, CHR 0x9F, CHR 0x8E, CHR 0xA7]"

definition link_symbol :: string where
  "link_symbol = [CHR 0xF0, CHR 0x9F, CHR 0x94, CHR 0x97]"

definition part001_formatPodcast :: "Runtime \<Rightarrow> Podcast \<Rightarrow> nat \<Rightarrow> string" where
  "part001_formatPodcast rt podcast index =
     (let result =
            newline @ studio_microphone @ '' **'' @ toString_nat index @ ''. ''
            @ p_name podcast @ ''**'' @ newline;
          result = result @ ''   '' @ file_folder @ '' Category: '' @ cat_name podcast @ newline;
          result = result @ ''   '' @ globe @ '' Language: '' @ p_lang podcast @ newline;
          result =
            (case p_desc podcast of
               None \<Rightarrow> result
             | Some desc \<Rightarrow>
                 if desc = [] then result
                 else
                   (let shortDesc =
                          (if length desc > 150 then take 150 desc @ ''...'' else desc)
                    in result @ ''   '' @ memo @ '' Description: '' @ shortDesc @ newline));
          result =
            result @ ''   '' @ headphone @ '' Total Streams: ''
            @ localeCount rt (total_stream podcast) @ newline
      in result @ ''   '' @ link_symbol @ '' Listen on Radio FM: '' @ p_deeplink podcast
           @ newline)"

section \<open>The conditions and texts the specification names\<close>

text \<open>
  The specification's ``a \<^verbatim>\<open>tools/call\<close> of \<^verbatim>\<open>search_radio_stations\<close> with the non-empty
  query \<open>q\<close>''.
\<close>

definition is_search_call :: "Request \<Rightarrow> string \<Rightarrow> bool" where
  "is_search_call req q =
     (rpc_method req = Some ''tools/call''
      \<and> (case params req of
            None \<Rightarrow> False
          | Some p \<Rightarrow>
              name p = Some ''search_radio_stations''
              \<and> (case arguments p of None \<Rightarrow> False | Some args \<Rightarrow> query args = Some q))
      \<and> q \<noteq> [])"


section \<open>Concrete inputs\<close>

definition example_runtime :: Runtime where
  "example_runtime =
     \<lparr>localeCount = (\<lambda>s. s),
      destructureError =
        ''Cannot destructure property 'name' of 'params' as it is undefined.''\<rparr>"

definition example_station :: "string \<Rightarrow> string \<Rightarrow> RadioStation" where
  "example_station nm freq =
     \<lparr>st_id = ''17'', st_name = nm, st_logo = ''logo.png'', st_weburl = ''~'',
      st_shorturl = ''s17'', st_genre = ''News'', st_lang = ''en'', language = ''English'',
      st_bc_freq = freq, st_city = ''London'', st_state = ''England'',
      country_name_rs = ''United Kingdom'', st_country = ''UK'', st_play_cnt = ''512'',
      st_fav_cnt = ''3'', stream_link = ''http://stream'', stream_type = ''mp3'',
      stream_bitrate = ''128'', st_deeplink = ''https://radiofm.co/s17''\<rparr>"

definition example_podcast :: "string option \<Rightarrow> Podcast" where
  "example_podcast desc =
     \<lparr>p_id = ''9'', p_name = ''Daily'', p_desc = desc, p_lang = ''English'',
      p_image = ''img.png'', p_email = ''a@b.c'', cat_name = ''News'',
      total_stream = ''77'', p_deeplink = ''https://radiofm.co/p9'', cc_code = ''GB''\<rparr>"

definition search_request :: "string option \<Rightarrow> Request" where
  "search_request q =
     \<lparr>rpc_method = Some ''tools/call'',
      params = Some \<lparr>name = Some ''search_radio_stations'',
                     arguments = Some \<lparr>query = q\<rparr>\<rparr>,
      id_value = Num 1\<rparr>"

definition plain_request :: "string option \<Rightarrow> Params option \<Rightarrow> Request" where
  "plain_request m p = \<lparr>rpc_method = m, params = p, id_value = Str ''a''\<rparr>"

definition upstream_response :: "int \<Rightarrow> string \<Rightarrow> ResultGroup list option \<Rightarrow> Upstream" where
  "upstream_response c m d =
     (\<lambda>srch. Inr \<lparr>http_response_code = 200, http_response_message = ''OK'',
                  data = \<lparr>ErrorCode = c, ErrorMessage = m, Data = d\<rparr>\<rparr>)"

definition upstream_down :: Upstream where
  "upstream_down = (\<lambda>srch. Inl ''timeout of 15000ms exceeded'')"

definition podcast_only :: "ResultGroup list" where
  "podcast_only = [\<lparr>type = ''podcast'', data = Podcasts [example_podcast None]\<rparr>]"

definition radio_twice :: "ResultGroup list" where
  "radio_twice =
     [\<lparr>type = ''radio'', data = Stations []\<rparr>,
      \<lparr>type = ''radio'', data = Stations [example_station ''BBC'' ''~'']\<rparr>]"

definition two_stations :: "ResultGroup list" where
  "two_stations =
     [\<lparr>type = ''radio'',
       data = Stations [example_station ''BBC'' ''~'', example_station ''NPR'' ''90.9'']\<rparr>]"

definition no_station_data :: "ResultGroup list" where
  "no_station_data =
     [\<lparr>type = ''radio'', data = Stations []\<rparr>,
      \<lparr>type = ''news'', data = Stations [example_station ''BBC'' ''~'']\<rparr>]"

section \<open>Auxiliary facts\<close>



text \<open>\<^verbatim>\<open>xs.map((x, index) => g(x, index))\<close> visits the positions in order.\<close>

lemma map_enumerate_nth:
  "map (\<lambda>(index, x). g x index) (enumerate 0 xs) = map (\<lambda>i. g (xs ! i) i) [0 ..< length xs]"
  by (rule nth_equalityI) (simp_all add: nth_enumerate_eq)

lemma data_length_as_RadioStations: "length (as_RadioStations d) = data_length d"
  by (cases d) simp_all

lemma data_length_as_Podcasts: "length (as_Podcasts d) = data_length d"
  by (cases d) simp_all

text \<open>The search branch, once the request is known to reach it.\<close>

lemma mcp_try_search:
  assumes "is_search_call req q"
  shows "mcp_try rt upstream req sent =
     (case upstream q of
        Inl m \<Rightarrow> (Inl m, sent @ [q])
      | Inr apiData \<Rightarrow>
          if ErrorCode (ApiResponse.data apiData) \<noteq> 0
          then (Inl (ErrorMessage (ApiResponse.data apiData)), sent @ [q])
          else if Data (ApiResponse.data apiData) = None
                  \<or> Data (ApiResponse.data apiData) = Some []
          then (Inr (result_envelope (id_value req) (text_content (no_results_text q))),
                sent @ [q])
          else (Inr (result_envelope (id_value req)
                       (text_content
                          (join newline
                             (sections rt q (the (Data (ApiResponse.data apiData))))))),
                sent @ [q]))"
  using assms
  by (auto simp: is_search_call_def mcp_try_def axios_get_def split: option.splits sum.splits)

lemma mcp_try_sent:
  "snd (mcp_try rt upstream req sent) = sent
   \<or> (\<exists>q. is_search_call req q \<and> snd (mcp_try rt upstream req sent) = sent @ [q])"
  by (auto simp: is_search_call_def mcp_try_def axios_get_def split: option.splits sum.splits)

lemma snd_mcp_post: "snd (mcp_post rt upstream req sent) = snd (mcp_try rt upstream req sent)"
  by (simp add: mcp_post_def split: prod.splits sum.splits)

text \<open>The array \<^verbatim>\<open>sections\<close> by position, in the source and in the build.\<close>

lemma sections_eq:
  \<open>sections rt q results =
     [''Search Results for "'' @ q @ ''"'']
     @ (case find (\<lambda>r. type r = ''radio'') results of
          None \<Rightarrow> []
        | Some g \<Rightarrow>
            if data_length (ResultGroup.data g) = 0 then []
            else (newline @ ''RADIO STATIONS (''
                    @ toString_nat (data_length (ResultGroup.data g)) @ '')'')
                 # map (\<lambda>i. formatRadioStation rt
                               (as_RadioStations (ResultGroup.data g) ! i) (i + 1))
                     [0 ..< data_length (ResultGroup.data g)])
     @ [newline @ ''Tap on any "Listen" link to play on radiofm.co'']\<close>
  by (simp add: sections_def Let_def map_enumerate_nth data_length_as_RadioStations
        split: option.splits)

lemma part000_sections_eq:
  \<open>part000_sections rt q results =
     [''Search Results for "'' @ q @ ''"'']
     @ (case find (\<lambda>r. type r = ''radio'') results of
          None \<Rightarrow> []
        | Some g \<Rightarrow>
            if data_length (ResultGroup.data g) = 0 then []
            else (newline @ ''RADIO STATIONS (''
                    @ toString_nat (data_length (ResultGroup.data g)) @ '')'')
                 # map (\<lambda>i. part000_formatRadioStation rt
                               (as_RadioStations (ResultGroup.data g) ! i) (i + 1))
                     [0 ..< data_length (ResultGroup.data g)])
     @ (case find (\<lambda>r. type r = ''podcast'') results of
          None \<Rightarrow> []
        | Some g \<Rightarrow>
            if data_length (ResultGroup.data g) = 0 then []
            else (newline @ ''PODCASTS (''
                    @ toString_nat (data_length (ResultGroup.data g)) @ '')'')
                 # map (\<lambda>i. formatPodcast rt (as_Podcasts (ResultGroup.data g) ! i) (i + 1))
                     [0 ..< data_length (ResultGroup.data g)])
     @ [newline @ ''Tap on any "Listen" link to play on radiofm.co'']\<close>
  by (simp add: part000_sections_def Let_def map_enumerate_nth data_length_as_RadioStations
        data_length_as_Podcasts split: option.splits)

lemma find_no_data:
  assumes "\<forall>g \<in> set results. P g \<longrightarrow> data_length (ResultGroup.data g) = 0"
  shows "(case find P results of
            None \<Rightarrow> []
          | Some g \<Rightarrow> if data_length (ResultGroup.data g) = 0 then [] else f g) = []"
proof (cases "find P results")
  case None
  then show ?thesis
    by simp
next
  case (Some g)
  then have "g \<in> set results" "P g"
    by (auto simp: find_Some_iff)
  with assms Some show ?thesis
    by simp
qed

text \<open>
  In the build, a response in which no group tagged \<open>radio\<close> or \<open>podcast\<close> has data
  gives the header and the closing line only, as in the source.
\<close>

lemma part000_no_data:
  assumes "\<forall>g \<in> set results. type g = ''radio'' \<or> type g = ''podcast''
             \<longrightarrow> data_length (ResultGroup.data g) = 0"
  shows \<open>part000_sections rt q results =
     [''Search Results for "'' @ q @ ''"'',
      newline @ ''Tap on any "Listen" link to play on radiofm.co'']\<close>
proof -
  have r: "\<forall>g \<in> set results. type g = ''radio'' \<longrightarrow> data_length (ResultGroup.data g) = 0"
    and p: "\<forall>g \<in> set results. type g = ''podcast'' \<longrightarrow> data_length (ResultGroup.data g) = 0"
    using assms by blast+
  show ?thesis
    by (simp add: part000_sections_eq find_no_data [OF r] find_no_data [OF p])
qed

lemmas example_defs =
  example_runtime_def example_station_def example_podcast_def search_request_def
  plain_request_def upstream_response_def upstream_down_def podcast_only_def
  radio_twice_def two_stations_def no_station_data_def

lemmas handler_defs =
  mcp_post_def mcp_try_def mcp_catch_def axios_get_def result_envelope_def
  error_envelope_def text_content_def

lemma search_request_is_search_call: "is_search_call (search_request (Some ''jazz'')) ''jazz''"
  by (simp add: is_search_call_def search_request_def)

lemma upstream_response_apply:
  "upstream_response c m d srch
     = Inr \<lparr>http_response_code = 200, http_response_message = ''OK'',
            data = \<lparr>ErrorCode = c, ErrorMessage = m, Data = d\<rparr>\<rparr>"
  by (simp add: upstream_response_def)

section \<open>Properties of the formatters\<close>





text \<open>
  The older formatter of \<^verbatim>\<open>src/unnamed/part_001\<close> keeps a description up to 150
  characters long as it is, in its own layout.
\<close>

lemma part001_formatPodcast_description:
  assumes "p_desc podcast = Some desc" and "desc \<noteq> []"
  shows "part001_formatPodcast rt podcast index =
     newline @ studio_microphone @ '' **'' @ toString_nat index @ ''. ''
     @ p_name podcast @ ''**'' @ newline
     @ ''   '' @ file_folder @ '' Category: '' @ cat_name podcast @ newline
     @ ''   '' @ globe @ '' Language: '' @ p_lang podcast @ newline
     @ ''   '' @ memo @ '' Description: ''
     @ (if length desc > 150 then take 150 desc @ ''...'' else desc) @ newline
     @ ''   '' @ headphone @ '' Total Streams: '' @ localeCount rt (total_stream podcast)
     @ newline
     @ ''   '' @ link_symbol @ '' Listen on Radio FM: '' @ p_deeplink podcast @ newline"
  using assms by (simp add: part001_formatPodcast_def Let_def)

section \<open>Properties of the dispatcher\<close>

text \<open>
  Claim C8. For every envelope whose method is \<open>initialize\<close>, whatever its \<open>params\<close>,
  the handler answers with the result envelope that echoes the \<open>id\<close> and carries the
  protocol version \<open>2024-11-05\<close>, the capabilities \<^verbatim>\<open>{tools: {}}\<close> and the server
  identity \<open>radiofm-mcp-server\<close>, and issues no GET.
\<close>

theorem initialize_fixed:
  assumes "rpc_method req = Some ''initialize''"
  shows "mcp_post rt upstream req sent =
           (Obj [(''jsonrpc'', Str ''2.0''),
                 (''id'', id_value req),
                 (''result'',
                    Obj [(''protocolVersion'', Str ''2024-11-05''),
                         (''capabilities'', Obj [(''tools'', Obj [])]),
                         (''serverInfo'',
                            Obj [(''name'', Str ''radiofm-mcp-server''),
                                 (''version'', Str ''1.0.0'')])])],
            sent)"
  using assms
  by (simp add: mcp_post_def mcp_try_def result_envelope_def initialize_result_def)

theorem initialize_fixed_witness:
  "fst (mcp_post example_runtime upstream_down (plain_request (Some ''initialize'') None) [])
     = result_envelope (Str ''a'') initialize_result
   \<and> fst (mcp_post example_runtime upstream_down
            (plain_request (Some ''initialize'')
               (Some \<lparr>name = Some ''search_radio_stations'', arguments = None\<rparr>)) [])
     = result_envelope (Str ''a'') initialize_result"
  using
    initialize_fixed
      [of "plain_request (Some ''initialize'') None" example_runtime upstream_down "[]"]
    initialize_fixed
      [of "plain_request (Some ''initialize'')
             (Some \<lparr>name = Some ''search_radio_stations'', arguments = None\<rparr>)"
          example_runtime upstream_down "[]"]
  by (simp add: plain_request_def result_envelope_def initialize_result_def)

text \<open>
  Claim C4. For every \<^verbatim>\<open>tools/call\<close> of \<open>search_radio_stations\<close> whose
  \<^verbatim>\<open>params.arguments.query\<close> is absent or the empty string, the handler answers with
  the error envelope of code \<open>-32000\<close> and message \<open>Search query is required\<close>, and the
  log of outbound GETs is unchanged.
\<close>

theorem missing_query_rejected:
  assumes "rpc_method req = Some ''tools/call''"
    and "params req = Some p"
    and "name p = Some ''search_radio_stations''"
    and "arguments p = None
         \<or> (\<exists>args. arguments p = Some args
                    \<and> (query args = None \<or> query args = Some ''''))"
  shows "mcp_post rt upstream req sent =
           (Obj [(''jsonrpc'', Str ''2.0''),
                 (''id'', id_value req),
                 (''error'', Obj [(''code'', Num (- 32000)),
                                  (''message'', Str ''Search query is required'')])],
            sent)"
  using assms
  by (auto simp: mcp_post_def mcp_try_def mcp_catch_def error_envelope_def)

theorem missing_query_rejected_witness:
  "mcp_post example_runtime upstream_down (search_request None) []
     = (error_envelope (Num 1) (- 32000) ''Search query is required'', [])
   \<and> mcp_post example_runtime upstream_down (search_request (Some '''')) []
     = (error_envelope (Num 1) (- 32000) ''Search query is required'', [])
   \<and> mcp_post example_runtime upstream_down
       (plain_request (Some ''tools/call'')
          (Some \<lparr>name = Some ''search_radio_stations'', arguments = None\<rparr>)) []
     = (error_envelope (Str ''a'') (- 32000) ''Search query is required'', [])"
  using
    missing_query_rejected
      [of "search_request None"
          "\<lparr>name = Some ''search_radio_stations'', arguments = Some \<lparr>query = None\<rparr>\<rparr>"
          example_runtime upstream_down "[]"]
    missing_query_rejected
      [of "search_request (Some '''')"
          "\<lparr>name = Some ''search_radio_stations'',
            arguments = Some \<lparr>query = Some ''''\<rparr>\<rparr>"
          example_runtime upstream_down "[]"]
    missing_query_rejected
      [of "plain_request (Some ''tools/call'')
             (Some \<lparr>name = Some ''search_radio_stations'', arguments = None\<rparr>)"
          "\<lparr>name = Some ''search_radio_stations'', arguments = None\<rparr>"
          example_runtime upstream_down "[]"]
  by (simp add: search_request_def plain_request_def error_envelope_def)

text \<open>
  Claim C1. For every envelope the handler answers with an envelope that echoes the
  \<open>id\<close>: a result envelope, or the error envelope of code \<open>-32000\<close>. Every exception
  that leaves the \<^verbatim>\<open>try\<close> block is rendered as that error envelope, with its message
  (or \<open>Internal server error\<close> when the message is empty). A method other than
  \<open>initialize\<close>, \<open>tools/list\<close> and \<open>tools/call\<close> fails with \<open>Unknown method\<close>, and a
  \<^verbatim>\<open>tools/call\<close> whose \<^verbatim>\<open>params.name\<close> is not \<open>search_radio_stations\<close> fails with
  \<open>Unknown tool\<close>.
\<close>

theorem mcp_post_failures_caught:
  "((\<exists>result. fst (mcp_post rt upstream req sent) = result_envelope (id_value req) result)
      \<or> (\<exists>message. fst (mcp_post rt upstream req sent)
                       = error_envelope (id_value req) (- 32000) message))
   \<and> (\<forall>m sent'. mcp_try rt upstream req sent = (Inl m, sent') \<longrightarrow>
         mcp_post rt upstream req sent =
           (Obj [(''jsonrpc'', Str ''2.0''),
                 (''id'', id_value req),
                 (''error'',
                    Obj [(''code'', Num (- 32000)),
                         (''message'',
                            Str (if m = '''' then ''Internal server error'' else m))])],
            sent'))
   \<and> (rpc_method req \<noteq> Some ''initialize'' \<and> rpc_method req \<noteq> Some ''tools/list''
        \<and> rpc_method req \<noteq> Some ''tools/call'' \<longrightarrow>
         mcp_post rt upstream req sent =
           (error_envelope (id_value req) (- 32000)
              (''Unknown method: '' @ template (rpc_method req)), sent))
   \<and> (\<forall>p. rpc_method req = Some ''tools/call'' \<and> params req = Some p
            \<and> name p \<noteq> Some ''search_radio_stations'' \<longrightarrow>
         mcp_post rt upstream req sent =
           (error_envelope (id_value req) (- 32000)
              (''Unknown tool: '' @ template (name p)), sent))"
proof (intro conjI allI impI)
  show "(\<exists>result. fst (mcp_post rt upstream req sent) = result_envelope (id_value req) result)
      \<or> (\<exists>message. fst (mcp_post rt upstream req sent)
                       = error_envelope (id_value req) (- 32000) message)"
    by (auto simp: mcp_post_def mcp_try_def mcp_catch_def axios_get_def
          split: option.splits sum.splits prod.splits)
next
  fix m sent'
  assume "mcp_try rt upstream req sent = (Inl m, sent')"
  then show "mcp_post rt upstream req sent =
           (Obj [(''jsonrpc'', Str ''2.0''),
                 (''id'', id_value req),
                 (''error'',
                    Obj [(''code'', Num (- 32000)),
                         (''message'',
                            Str (if m = '''' then ''Internal server error'' else m))])],
            sent')"
    by (simp add: mcp_post_def mcp_catch_def error_envelope_def)
next
  assume "rpc_method req \<noteq> Some ''initialize'' \<and> rpc_method req \<noteq> Some ''tools/list''
        \<and> rpc_method req \<noteq> Some ''tools/call''"
  then show "mcp_post rt upstream req sent =
           (error_envelope (id_value req) (- 32000)
              (''Unknown method: '' @ template (rpc_method req)), sent)"
    by (simp add: mcp_post_def mcp_try_def mcp_catch_def)
next
  fix p
  assume "rpc_method req = Some ''tools/call'' \<and> params req = Some p
            \<and> name p \<noteq> Some ''search_radio_stations''"
  then show "mcp_post rt upstream req sent =
           (error_envelope (id_value req) (- 32000)
              (''Unknown tool: '' @ template (name p)), sent)"
    by (simp add: mcp_post_def mcp_try_def mcp_catch_def)
qed

theorem mcp_post_failures_caught_witness:
  "mcp_post example_runtime upstream_down (plain_request (Some ''resources/list'') None) []
     = (error_envelope (Str ''a'') (- 32000) ''Unknown method: resources/list'', [])
   \<and> mcp_post example_runtime upstream_down
       (plain_request (Some ''tools/call'')
          (Some \<lparr>name = Some ''play'', arguments = None\<rparr>)) []
     = (error_envelope (Str ''a'') (- 32000) ''Unknown tool: play'', [])
   \<and> mcp_post example_runtime upstream_down (plain_request (Some ''tools/call'') None) []
     = (error_envelope (Str ''a'') (- 32000)
          ''Cannot destructure property 'name' of 'params' as it is undefined.'', [])
   \<and> mcp_post example_runtime upstream_down (search_request (Some ''jazz'')) []
     = (error_envelope (Num 1) (- 32000) ''timeout of 15000ms exceeded'', [''jazz''])"
proof -
  have t: "mcp_try example_runtime upstream_down (search_request (Some ''jazz'')) []
             = (Inl ''timeout of 15000ms exceeded'', [''jazz''])"
    by (simp add: mcp_try_def axios_get_def search_request_def upstream_down_def)
  have u: "mcp_try example_runtime upstream_down (plain_request (Some ''tools/call'') None) []
             = (Inl ''Cannot destructure property 'name' of 'params' as it is undefined.'',
                [])"
    by (simp add: mcp_try_def plain_request_def example_runtime_def)
  show ?thesis
    using t u
      mcp_post_failures_caught
        [of example_runtime upstream_down "plain_request (Some ''resources/list'') None" "[]"]
      mcp_post_failures_caught
        [of example_runtime upstream_down
            "plain_request (Some ''tools/call'')
               (Some \<lparr>name = Some ''play'', arguments = None\<rparr>)" "[]"]
      mcp_post_failures_caught
        [of example_runtime upstream_down "plain_request (Some ''tools/call'') None" "[]"]
      mcp_post_failures_caught
        [of example_runtime upstream_down "search_request (Some ''jazz'')" "[]"]
    by (simp add: plain_request_def search_request_def error_envelope_def)
qed

text \<open>
  Claim C9. For every envelope the handler issues at most one outbound GET: exactly one,
  carrying the query, when the request is a \<^verbatim>\<open>tools/call\<close> of \<open>search_radio_stations\<close>
  with a non-empty query, and none for \<open>initialize\<close>, for \<open>tools/list\<close>, for an
  unknown method, for an unknown tool, and for a missing or empty query.
\<close>

theorem at_most_one_upstream_get:
  "length (snd (mcp_post rt upstream req sent)) \<le> length sent + 1
   \<and> (\<forall>q. is_search_call req q \<longrightarrow> snd (mcp_post rt upstream req sent) = sent @ [q])
   \<and> (rpc_method req = Some ''initialize'' \<or> rpc_method req = Some ''tools/list'' \<longrightarrow>
         snd (mcp_post rt upstream req sent) = sent)
   \<and> (rpc_method req \<noteq> Some ''initialize'' \<and> rpc_method req \<noteq> Some ''tools/list''
        \<and> rpc_method req \<noteq> Some ''tools/call'' \<longrightarrow>
         snd (mcp_post rt upstream req sent) = sent)
   \<and> (\<forall>p. rpc_method req = Some ''tools/call'' \<and> params req = Some p
            \<and> name p \<noteq> Some ''search_radio_stations'' \<longrightarrow>
         snd (mcp_post rt upstream req sent) = sent)
   \<and> (\<forall>p. rpc_method req = Some ''tools/call'' \<and> params req = Some p
            \<and> name p = Some ''search_radio_stations''
            \<and> (case arguments p of
                  None \<Rightarrow> True
                | Some args \<Rightarrow> query args = None \<or> query args = Some '''') \<longrightarrow>
         snd (mcp_post rt upstream req sent) = sent)"
proof (intro conjI allI impI)
  show "length (snd (mcp_post rt upstream req sent)) \<le> length sent + 1"
    using mcp_try_sent [of rt upstream req sent] by (auto simp: snd_mcp_post)
next
  fix q
  assume "is_search_call req q"
  then show "snd (mcp_post rt upstream req sent) = sent @ [q]"
    by (simp add: snd_mcp_post mcp_try_search split: sum.splits)
next
  assume "rpc_method req = Some ''initialize'' \<or> rpc_method req = Some ''tools/list''"
  then show "snd (mcp_post rt upstream req sent) = sent"
    by (auto simp: snd_mcp_post mcp_try_def)
next
  assume "rpc_method req \<noteq> Some ''initialize'' \<and> rpc_method req \<noteq> Some ''tools/list''
        \<and> rpc_method req \<noteq> Some ''tools/call''"
  then show "snd (mcp_post rt upstream req sent) = sent"
    by (simp add: snd_mcp_post mcp_try_def)
next
  fix p
  assume "rpc_method req = Some ''tools/call'' \<and> params req = Some p
            \<and> name p \<noteq> Some ''search_radio_stations''"
  then show "snd (mcp_post rt upstream req sent) = sent"
    by (simp add: snd_mcp_post mcp_try_def)
next
  fix p
  assume "rpc_method req = Some ''tools/call'' \<and> params req = Some p
            \<and> name p = Some ''search_radio_stations''
            \<and> (case arguments p of
                  None \<Rightarrow> True
                | Some args \<Rightarrow> query args = None \<or> query args = Some '''')"
  then show "snd (mcp_post rt upstream req sent) = sent"
    by (auto simp: snd_mcp_post mcp_try_def split: option.splits)
qed

theorem at_most_one_upstream_get_witness:
  "snd (mcp_post example_runtime (upstream_response 0 '''' None)
          (search_request (Some ''jazz'')) [''rock'']) = [''rock'', ''jazz'']
   \<and> snd (mcp_post example_runtime upstream_down (search_request (Some ''jazz'')) [])
       = [''jazz'']
   \<and> snd (mcp_post example_runtime upstream_down
            (plain_request (Some ''initialize'') None) []) = []
   \<and> snd (mcp_post example_runtime upstream_down
            (plain_request (Some ''tools/list'') None) []) = []
   \<and> snd (mcp_post example_runtime upstream_down (plain_request (Some ''ping'') None) []) = []
   \<and> snd (mcp_post example_runtime upstream_down
            (plain_request (Some ''tools/call'')
               (Some \<lparr>name = Some ''play'', arguments = None\<rparr>)) []) = []
   \<and> snd (mcp_post example_runtime upstream_down (search_request (Some '''')) []) = []"
  using search_request_is_search_call
    at_most_one_upstream_get
      [of example_runtime "upstream_response 0 '''' None" "search_request (Some ''jazz'')"
          "[''rock'']"]
    at_most_one_upstream_get
      [of example_runtime upstream_down "search_request (Some ''jazz'')" "[]"]
    at_most_one_upstream_get
      [of example_runtime upstream_down "plain_request (Some ''initialize'') None" "[]"]
    at_most_one_upstream_get
      [of example_runtime upstream_down "plain_request (Some ''tools/list'') None" "[]"]
    at_most_one_upstream_get
      [of example_runtime upstream_down "plain_request (Some ''ping'') None" "[]"]
    at_most_one_upstream_get
      [of example_runtime upstream_down
          "plain_request (Some ''tools/call'')
             (Some \<lparr>name = Some ''play'', arguments = None\<rparr>)" "[]"]
    at_most_one_upstream_get
      [of example_runtime upstream_down "search_request (Some '''')" "[]"]
  by (simp add: plain_request_def search_request_def)

section \<open>Properties of the search adapter\<close>

text \<open>
  Claim C2, as amended. For every \<^verbatim>\<open>tools/call\<close> of \<open>search_radio_stations\<close> with a
  non-empty query, if the upstream body's \<^verbatim>\<open>data.ErrorCode\<close> is not zero, the handler
  answers with the error envelope of code \<open>-32000\<close> whose message is the upstream
  \<^verbatim>\<open>data.ErrorMessage\<close> verbatim when that message is not empty, and
  \<open>Internal server error\<close> when it is the empty string.
\<close>

theorem upstream_error_message:
  assumes "is_search_call req q"
    and "upstream q = Inr apiData"
    and "ErrorCode (ApiResponse.data apiData) \<noteq> 0"
  shows "fst (mcp_post rt upstream req sent) =
     Obj [(''jsonrpc'', Str ''2.0''),
          (''id'', id_value req),
          (''error'',
             Obj [(''code'', Num (- 32000)),
                  (''message'',
                     Str (if ErrorMessage (ApiResponse.data apiData) = ''''
                          then ''Internal server error''
                          else ErrorMessage (ApiResponse.data apiData)))])]"
  using assms
  by (simp add: mcp_post_def mcp_try_search mcp_catch_def error_envelope_def)

theorem upstream_error_message_witness:
  "fst (mcp_post example_runtime (upstream_response 7 ''rate limited'' None)
          (search_request (Some ''jazz'')) [])
     = Obj [(''jsonrpc'', Str ''2.0''),
            (''id'', Num 1),
            (''error'',
               Obj [(''code'', Num (- 32000)), (''message'', Str ''rate limited'')])]"
  using
    upstream_error_message
      [where req = "search_request (Some ''jazz'')" and q = "''jazz''"
         and upstream = "upstream_response 7 ''rate limited'' None"
         and rt = example_runtime and sent = "[]",
       OF search_request_is_search_call upstream_response_apply]
  by (simp add: search_request_def)

text \<open>
  The claim as first stated asks for the upstream message in every case. An upstream body
  with \<^verbatim>\<open>ErrorCode: 7\<close> and \<^verbatim>\<open>ErrorMessage: ""\<close> is answered with
  \<open>Internal server error\<close>, not with the empty message.
\<close>

theorem upstream_error_message_counterexample:
  "is_search_call (search_request (Some ''jazz'')) ''jazz''
   \<and> fst (mcp_post example_runtime (upstream_response 7 '''' None)
            (search_request (Some ''jazz'')) [])
       = error_envelope (Num 1) (- 32000) ''Internal server error''
   \<and> fst (mcp_post example_runtime (upstream_response 7 '''' None)
            (search_request (Some ''jazz'')) [])
       \<noteq> error_envelope (Num 1) (- 32000) ''''"
  by (simp add: is_search_call_def handler_defs example_defs)

text \<open>
  Claim C5. For every \<^verbatim>\<open>tools/call\<close> of \<open>search_radio_stations\<close> with a non-empty
  query, if the upstream body has \<^verbatim>\<open>ErrorCode\<close> 0 and its \<^verbatim>\<open>Data\<close> is absent or
  empty, the handler answers with a result envelope whose content is the single item of
  type \<open>text\<close> holding the fixed guidance message with the query between its quotes.
\<close>

theorem no_results_message:
  assumes "is_search_call req q"
    and "upstream q = Inr apiData"
    and "ErrorCode (ApiResponse.data apiData) = 0"
    and "Data (ApiResponse.data apiData) = None \<or> Data (ApiResponse.data apiData) = Some []"
  shows \<open>fst (mcp_post rt upstream req sent) =
     Obj [(''jsonrpc'', Str ''2.0''),
          (''id'', id_value req),
          (''result'',
             Obj [(''content'',
                Arr [Obj [(''type'', Str ''text''),
                          (''text'',
                             Str (magnifier @ '' No results found for "'' @ q @ ''"''
                                  @ newline @ newline
                                  @ ''Try searching with:'' @ newline
                                  @ ''- Station name (e.g., "BBC", "NPR")'' @ newline
                                  @ ''- Country (e.g., "UK", "USA", "India")'' @ newline
                                  @ ''- Language (e.g., "English", "Spanish")'' @ newline
                                  @ ''- Genre (e.g., "Jazz", "News", "Rock")''))]])])]\<close>
  using assms
  by (auto simp: mcp_post_def mcp_try_search result_envelope_def text_content_def
        no_results_text_def)

theorem no_results_message_witness:
  "fst (mcp_post example_runtime (upstream_response 0 '''' None)
          (search_request (Some ''jazz'')) [])
     = result_envelope (Num 1) (text_content (no_results_text ''jazz''))
   \<and> fst (mcp_post example_runtime (upstream_response 0 '''' (Some []))
          (search_request (Some ''jazz'')) [])
     = result_envelope (Num 1) (text_content (no_results_text ''jazz''))"
  using
    no_results_message
      [where req = "search_request (Some ''jazz'')" and q = "''jazz''"
         and upstream = "upstream_response 0 '''' None"
         and rt = example_runtime and sent = "[]",
       OF search_request_is_search_call upstream_response_apply]
    no_results_message
      [where req = "search_request (Some ''jazz'')" and q = "''jazz''"
         and upstream = "upstream_response 0 '''' (Some [])"
         and rt = example_runtime and sent = "[]",
       OF search_request_is_search_call upstream_response_apply]
  by (simp add: search_request_def result_envelope_def text_content_def no_results_text_def)




text \<open>
  Claim C10. For every \<^verbatim>\<open>tools/call\<close> of \<open>search_radio_stations\<close> whose upstream body
  has \<^verbatim>\<open>ErrorCode\<close> 0 and a non-empty \<^verbatim>\<open>Data\<close> in which no group tagged \<open>radio\<close> and
  no group tagged \<open>podcast\<close> has data, the handler answers with a result envelope whose
  text is the header line with the query and the closing line joined by a newline; this is
  not the guidance message for no results.
\<close>

theorem no_section_text:
  assumes "is_search_call req q"
    and "upstream q = Inr apiData"
    and "ErrorCode (ApiResponse.data apiData) = 0"
    and "Data (ApiResponse.data apiData) = Some results"
    and "results \<noteq> []"
    and "\<forall>g \<in> set results. type g = ''radio'' \<or> type g = ''podcast''
            \<longrightarrow> data_length (ResultGroup.data g) = 0"
  shows \<open>fst (mcp_post rt upstream req sent) =
           Obj [(''jsonrpc'', Str ''2.0''),
                (''id'', id_value req),
                (''result'',
                   Obj [(''content'',
                      Arr [Obj [(''type'', Str ''text''),
                                (''text'',
                                   Str (join newline
                                     [''Search Results for "'' @ q @ ''"'',
                                      newline
                                      @ ''Tap on any "Listen" link to play on radiofm.co'']))]])])]
         \<and> fst (mcp_post rt upstream req sent)
             \<noteq> result_envelope (id_value req) (text_content (no_results_text q))\<close>
proof -
  have r: "\<forall>g \<in> set results. type g = ''radio'' \<longrightarrow> data_length (ResultGroup.data g) = 0"
    using assms(6) by blast
  have s: \<open>sections rt q results =
     [''Search Results for "'' @ q @ ''"'',
      newline @ ''Tap on any "Listen" link to play on radiofm.co'']\<close>
    unfolding sections_eq using find_no_data [OF r] by simp
  show ?thesis
    using assms(1-5)
    by (simp add: mcp_post_def mcp_try_search s result_envelope_def text_content_def
          no_results_text_def magnifier_def)
qed

theorem no_section_text_witness:
  \<open>fst (mcp_post example_runtime (upstream_response 0 '''' (Some no_station_data))
          (search_request (Some ''jazz'')) [])
     = result_envelope (Num 1)
         (text_content
            (''Search Results for "jazz"'' @ newline @ newline
             @ ''Tap on any "Listen" link to play on radiofm.co''))\<close>
proof -
  have c: "\<forall>g \<in> set no_station_data. type g = ''radio'' \<or> type g = ''podcast''
            \<longrightarrow> data_length (ResultGroup.data g) = 0"
    by (simp add: no_station_data_def)
  have n: "no_station_data \<noteq> []"
    by (simp add: no_station_data_def)
  have e:
    "ErrorCode (ApiResponse.data
       \<lparr>http_response_code = 200, http_response_message = ''OK'',
        data = \<lparr>ErrorCode = 0, ErrorMessage = '''', Data = Some no_station_data\<rparr>\<rparr>) = 0"
    by simp
  have d:
    "Data (ApiResponse.data
       \<lparr>http_response_code = 200, http_response_message = ''OK'',
        data = \<lparr>ErrorCode = 0, ErrorMessage = '''', Data = Some no_station_data\<rparr>\<rparr>)
     = Some no_station_data"
    by simp
  show ?thesis
    using
      no_section_text
        [where req = "search_request (Some ''jazz'')" and q = "''jazz''"
           and upstream = "upstream_response 0 '''' (Some no_station_data)"
           and rt = example_runtime and sent = "[]",
         OF search_request_is_search_call upstream_response_apply e d n c]
    by (simp add: search_request_def result_envelope_def text_content_def)
qed

end
